theory Spec2Isabelle
  imports Main
begin

section \<open>Run-time values\<close>

text \<open>
  The type parameters \<open>T\<close> and \<open>E\<close> of the library are erased at run time, so every
  payload is a JavaScript value. The library never looks inside a payload; it only moves
  it around. The universe below has the absent value \<open>undefined\<close>, the primitive values
  and plain objects (property lists in insertion order). Numbers occur as opaque payloads
  only, so integer numbers are enough.
\<close>

datatype val =
    Undefined
  | Null
  | Bool bool
  | Num int
  | Str string
  | Obj "(string \<times> val) list"

type_synonym obj = "(string \<times> val) list"

text \<open>Reading a property of an object: a property that is not there reads as \<open>undefined\<close>.\<close>

definition get_prop :: "obj \<Rightarrow> string \<Rightarrow> val" where
  "get_prop ob p = (case map_of ob p of Some v \<Rightarrow> v | None \<Rightarrow> Undefined)"

definition keys :: "obj \<Rightarrow> string list" where
  "keys ob = map fst ob"

section \<open>Callbacks, side effects and exceptions\<close>

text \<open>
  A thrown value is either \<open>new Error(message)\<close> or any other value a callback throws.
  A computation runs in a state \<open>'s\<close> of the surrounding world (whatever the callbacks
  of the caller read and write), and either returns a value or throws; in both cases the
  state it leaves behind is part of the outcome.
\<close>

datatype thrown = Error string | Thrown val

type_synonym ('a, 's) js = "'s \<Rightarrow> (thrown + 'a) \<times> 's"

definition js_return :: "'a \<Rightarrow> ('a, 's) js" where
  "js_return x s = (Inr x, s)"

definition js_bind :: "('a, 's) js \<Rightarrow> ('a \<Rightarrow> ('b, 's) js) \<Rightarrow> ('b, 's) js" where
  "js_bind m k s = (case m s of (Inl e, s') \<Rightarrow> (Inl e, s') | (Inr x, s') \<Rightarrow> k x s')"

text \<open>
  The call-counting stand-in callback of the tests (\<open>vi.fn\<close>): it computes \<open>f\<close> and
  counts its invocations in the state.
\<close>

definition counting :: "(val \<Rightarrow> 'a) \<Rightarrow> val \<Rightarrow> ('a, nat) js" where
  "counting f v n = (Inr (f v), Suc n)"

section \<open>The tagged value (\<open>helpers.ts\<close>, \<open>result-type.ts\<close>)\<close>

text \<open>\<open>ok(value)\<close> is the object literal \<open>{ kind: "ok", inner: value }\<close>.\<close>

definition ok :: "val \<Rightarrow> obj" where
  "ok v = [(''kind'', Str ''ok''), (''inner'', v)]"

text \<open>\<open>err(value)\<close> is the object literal \<open>{ kind: "err", inner: value }\<close>.\<close>

definition err :: "val \<Rightarrow> obj" where
  "err v = [(''kind'', Str ''err''), (''inner'', v)]"

section \<open>The functional combinator set (\<open>methods.ts\<close>)\<close>

definition match_result ::
  "obj \<Rightarrow> (val \<Rightarrow> ('a, 's) js) \<Rightarrow> (val \<Rightarrow> ('a, 's) js) \<Rightarrow> ('a, 's) js" where
  "match_result result ok_handler err_handler =
     (if get_prop result ''kind'' = Str ''ok''
      then ok_handler (get_prop result ''inner'')
      else err_handler (get_prop result ''inner''))"

definition isOk :: "obj \<Rightarrow> bool" where
  "isOk result = (get_prop result ''kind'' = Str ''ok'')"

definition isOkAnd :: "obj \<Rightarrow> (val \<Rightarrow> (bool, 's) js) \<Rightarrow> (bool, 's) js" where
  "isOkAnd result predicate =
     (if get_prop result ''kind'' = Str ''ok''
      then predicate (get_prop result ''inner'')
      else js_return False)"

definition isErr :: "obj \<Rightarrow> bool" where
  "isErr result = (get_prop result ''kind'' = Str ''err'')"

definition isErrAnd :: "obj \<Rightarrow> (val \<Rightarrow> (bool, 's) js) \<Rightarrow> (bool, 's) js" where
  "isErrAnd result predicate =
     (if get_prop result ''kind'' = Str ''err''
      then predicate (get_prop result ''inner'')
      else js_return False)"

definition resultOk :: "obj \<Rightarrow> val" where
  "resultOk result =
     (if get_prop result ''kind'' = Str ''ok'' then get_prop result ''inner'' else Undefined)"

definition resultErr :: "obj \<Rightarrow> val" where
  "resultErr result =
     (if get_prop result ''kind'' = Str ''err'' then get_prop result ''inner'' else Undefined)"

definition map_result :: "obj \<Rightarrow> (val \<Rightarrow> (val, 's) js) \<Rightarrow> (obj, 's) js" where
  "map_result result fn =
     (if get_prop result ''kind'' = Str ''ok''
      then js_bind (fn (get_prop result ''inner''))
             (\<lambda>u. js_return [(''kind'', Str ''ok''), (''inner'', u)])
      else js_return result)"

definition mapOr :: "obj \<Rightarrow> 'a \<Rightarrow> (val \<Rightarrow> ('a, 's) js) \<Rightarrow> ('a, 's) js" where
  "mapOr result defaultValue fn =
     (if get_prop result ''kind'' = Str ''ok''
      then fn (get_prop result ''inner'')
      else js_return defaultValue)"

definition mapOrElse ::
  "obj \<Rightarrow> (val \<Rightarrow> ('a, 's) js) \<Rightarrow> (val \<Rightarrow> ('a, 's) js) \<Rightarrow> ('a, 's) js" where
  "mapOrElse result fallback fn =
     (if get_prop result ''kind'' = Str ''ok''
      then fn (get_prop result ''inner'')
      else fallback (get_prop result ''inner''))"

definition mapErr :: "obj \<Rightarrow> (val \<Rightarrow> (val, 's) js) \<Rightarrow> (obj, 's) js" where
  "mapErr result fn =
     (if get_prop result ''kind'' = Str ''err''
      then js_bind (fn (get_prop result ''inner''))
             (\<lambda>u. js_return [(''kind'', Str ''err''), (''inner'', u)])
      else js_return result)"

text \<open>The value the callback of \<open>inspect\<close> returns is dropped; what it throws is not.\<close>

definition inspect :: "obj \<Rightarrow> (val \<Rightarrow> ('a, 's) js) \<Rightarrow> (obj, 's) js" where
  "inspect result fn =
     (if get_prop result ''kind'' = Str ''ok''
      then js_bind (fn (get_prop result ''inner'')) (\<lambda>_. js_return result)
      else js_return result)"

definition inspectErr :: "obj \<Rightarrow> (val \<Rightarrow> ('a, 's) js) \<Rightarrow> (obj, 's) js" where
  "inspectErr result fn =
     (if get_prop result ''kind'' = Str ''err''
      then js_bind (fn (get_prop result ''inner'')) (\<lambda>_. js_return result)
      else js_return result)"

definition expect :: "obj \<Rightarrow> string \<Rightarrow> thrown + val" where
  "expect result message =
     (if get_prop result ''kind'' = Str ''ok''
      then Inr (get_prop result ''inner'')
      else Inl (Error message))"

definition unwrap :: "obj \<Rightarrow> thrown + val" where
  "unwrap result =
     (if get_prop result ''kind'' = Str ''ok''
      then Inr (get_prop result ''inner'')
      else Inl (Error ''Called unwrap on an Err value''))"

definition unwrapOr :: "obj \<Rightarrow> val \<Rightarrow> val" where
  "unwrapOr result defaultValue =
     (if get_prop result ''kind'' = Str ''ok'' then get_prop result ''inner'' else defaultValue)"

definition unwrapOrElse :: "obj \<Rightarrow> (val \<Rightarrow> (val, 's) js) \<Rightarrow> (val, 's) js" where
  "unwrapOrElse result fn =
     (if get_prop result ''kind'' = Str ''ok''
      then js_return (get_prop result ''inner'')
      else fn (get_prop result ''inner''))"

definition expectErr :: "obj \<Rightarrow> string \<Rightarrow> thrown + val" where
  "expectErr result message =
     (if get_prop result ''kind'' = Str ''err''
      then Inr (get_prop result ''inner'')
      else Inl (Error message))"

definition unwrapErr :: "obj \<Rightarrow> thrown + val" where
  "unwrapErr result =
     (if get_prop result ''kind'' = Str ''err''
      then Inr (get_prop result ''inner'')
      else Inl (Error ''Called unwrapErr on an Ok value''))"

definition and_result :: "obj \<Rightarrow> obj \<Rightarrow> obj" where
  "and_result result other = (if get_prop result ''kind'' = Str ''ok'' then other else result)"

definition andThen :: "obj \<Rightarrow> (val \<Rightarrow> (obj, 's) js) \<Rightarrow> (obj, 's) js" where
  "andThen result fn =
     (if get_prop result ''kind'' = Str ''ok''
      then fn (get_prop result ''inner'')
      else js_return result)"

definition or_result :: "obj \<Rightarrow> obj \<Rightarrow> obj" where
  "or_result result other = (if get_prop result ''kind'' = Str ''ok'' then result else other)"

definition orElse :: "obj \<Rightarrow> (val \<Rightarrow> (obj, 's) js) \<Rightarrow> (obj, 's) js" where
  "orElse result fn =
     (if get_prop result ''kind'' = Str ''ok''
      then js_return result
      else fn (get_prop result ''inner''))"

section \<open>The object-style facade (\<open>result-class.ts\<close>)\<close>

text \<open>
  An instance of \<open>Res\<close> is an object of one of the two concrete classes \<open>Ok\<close> and
  \<open>Err\<close> together with its own properties. The constructor of \<open>Ok\<close> assigns the
  property \<open>value\<close> and nothing else (\<open>error\<close> is declared with \<open>!\<close> and never
  assigned); the constructor of \<open>Err\<close> assigns \<open>error\<close> and nothing else.
  Whether the compiler emits the unassigned field as a property holding \<open>undefined\<close>
  or emits nothing for it, reading it gives \<open>undefined\<close>, and no method lists the
  properties of an instance.
\<close>

datatype res_class = Ok_class | Err_class

record res =
  cls :: res_class
  props :: obj

definition new_Ok :: "val \<Rightarrow> res" where
  "new_Ok v = \<lparr>cls = Ok_class, props = [(''value'', v)]\<rparr>"

definition new_Err :: "val \<Rightarrow> res" where
  "new_Err e = \<lparr>cls = Err_class, props = [(''error'', e)]\<rparr>"

text \<open>The property reads \<open>this.value\<close> and \<open>this.error\<close>.\<close>

definition Res_value :: "res \<Rightarrow> val" where
  "Res_value this = get_prop (props this) ''value''"

definition Res_error :: "res \<Rightarrow> val" where
  "Res_error this = get_prop (props this) ''error''"

text \<open>The abstract methods \<open>isOk\<close> and \<open>isErr\<close>, dispatched on the class of the receiver.\<close>

definition Res_isOk :: "res \<Rightarrow> bool" where
  "Res_isOk this = (case cls this of Ok_class \<Rightarrow> True | Err_class \<Rightarrow> False)"

definition Res_isErr :: "res \<Rightarrow> bool" where
  "Res_isErr this = (case cls this of Ok_class \<Rightarrow> False | Err_class \<Rightarrow> True)"

definition Res_isOkAnd :: "res \<Rightarrow> (val \<Rightarrow> (bool, 's) js) \<Rightarrow> (bool, 's) js" where
  "Res_isOkAnd this predicate =
     (if Res_isOk this then predicate (Res_value this) else js_return False)"

definition Res_isErrAnd :: "res \<Rightarrow> (val \<Rightarrow> (bool, 's) js) \<Rightarrow> (bool, 's) js" where
  "Res_isErrAnd this predicate =
     (if Res_isErr this then predicate (Res_error this) else js_return False)"

text \<open>
  The instance methods \<open>ok()\<close> and \<open>err()\<close>; the names \<open>Res_ok\<close> and \<open>Res_err\<close> are
  kept for the static factories \<open>Res.ok\<close> and \<open>Res.err\<close>.
\<close>

definition Res_ok_method :: "res \<Rightarrow> val" where
  "Res_ok_method this = (if Res_isOk this then Res_value this else Undefined)"

definition Res_err_method :: "res \<Rightarrow> val" where
  "Res_err_method this = (if Res_isErr this then Res_error this else Undefined)"

definition Res_map :: "res \<Rightarrow> (val \<Rightarrow> (val, 's) js) \<Rightarrow> (res, 's) js" where
  "Res_map this fn =
     (if Res_isOk this
      then js_bind (fn (Res_value this)) (\<lambda>u. js_return (new_Ok u))
      else js_return (new_Err (Res_error this)))"

definition Res_mapOr :: "res \<Rightarrow> 'a \<Rightarrow> (val \<Rightarrow> ('a, 's) js) \<Rightarrow> ('a, 's) js" where
  "Res_mapOr this defaultValue fn =
     (if Res_isOk this then fn (Res_value this) else js_return defaultValue)"

definition Res_mapOrElse ::
  "res \<Rightarrow> (val \<Rightarrow> ('a, 's) js) \<Rightarrow> (val \<Rightarrow> ('a, 's) js) \<Rightarrow> ('a, 's) js" where
  "Res_mapOrElse this fallback fn =
     (if Res_isOk this then fn (Res_value this) else fallback (Res_error this))"

definition Res_mapErr :: "res \<Rightarrow> (val \<Rightarrow> (val, 's) js) \<Rightarrow> (res, 's) js" where
  "Res_mapErr this fn =
     (if Res_isErr this
      then js_bind (fn (Res_error this)) (\<lambda>u. js_return (new_Err u))
      else js_return (new_Ok (Res_value this)))"

definition Res_inspect :: "res \<Rightarrow> (val \<Rightarrow> ('a, 's) js) \<Rightarrow> (res, 's) js" where
  "Res_inspect this fn =
     (if Res_isOk this
      then js_bind (fn (Res_value this)) (\<lambda>_. js_return this)
      else js_return this)"

definition Res_inspectErr :: "res \<Rightarrow> (val \<Rightarrow> ('a, 's) js) \<Rightarrow> (res, 's) js" where
  "Res_inspectErr this fn =
     (if Res_isErr this
      then js_bind (fn (Res_error this)) (\<lambda>_. js_return this)
      else js_return this)"

definition Res_expect :: "res \<Rightarrow> string \<Rightarrow> thrown + val" where
  "Res_expect this message =
     (if Res_isOk this then Inr (Res_value this) else Inl (Error message))"

definition Res_unwrap :: "res \<Rightarrow> thrown + val" where
  "Res_unwrap this =
     (if Res_isOk this then Inr (Res_value this)
      else Inl (Error ''Called unwrap on an Err value''))"

definition Res_unwrapOr :: "res \<Rightarrow> val \<Rightarrow> val" where
  "Res_unwrapOr this defaultValue = (if Res_isOk this then Res_value this else defaultValue)"

definition Res_unwrapOrElse :: "res \<Rightarrow> (val \<Rightarrow> (val, 's) js) \<Rightarrow> (val, 's) js" where
  "Res_unwrapOrElse this fn =
     (if Res_isOk this then js_return (Res_value this) else fn (Res_error this))"

definition Res_expectErr :: "res \<Rightarrow> string \<Rightarrow> thrown + val" where
  "Res_expectErr this message =
     (if Res_isErr this then Inr (Res_error this) else Inl (Error message))"

definition Res_unwrapErr :: "res \<Rightarrow> thrown + val" where
  "Res_unwrapErr this =
     (if Res_isErr this then Inr (Res_error this)
      else Inl (Error ''Called unwrapErr on an Ok value''))"

definition Res_and :: "res \<Rightarrow> res \<Rightarrow> res" where
  "Res_and this other = (if Res_isOk this then other else new_Err (Res_error this))"

definition Res_andThen :: "res \<Rightarrow> (val \<Rightarrow> (res, 's) js) \<Rightarrow> (res, 's) js" where
  "Res_andThen this fn =
     (if Res_isOk this then fn (Res_value this) else js_return (new_Err (Res_error this)))"

definition Res_or :: "res \<Rightarrow> res \<Rightarrow> res" where
  "Res_or this other = (if Res_isOk this then new_Ok (Res_value this) else other)"

definition Res_orElse :: "res \<Rightarrow> (val \<Rightarrow> (res, 's) js) \<Rightarrow> (res, 's) js" where
  "Res_orElse this fn =
     (if Res_isOk this then js_return (new_Ok (Res_value this)) else fn (Res_error this))"

text \<open>The static factories \<open>Res.ok\<close>, \<open>Res.err\<close> and the bridge \<open>Res.from\<close>.\<close>

definition Res_ok :: "val \<Rightarrow> res" where
  "Res_ok v = new_Ok v"

definition Res_err :: "val \<Rightarrow> res" where
  "Res_err e = new_Err e"

definition Res_from :: "obj \<Rightarrow> res" where
  "Res_from result =
     (if get_prop result ''kind'' = Str ''ok''
      then Res_ok (get_prop result ''inner'')
      else Res_err (get_prop result ''inner''))"

text \<open>\<open>toJSON\<close>, overridden in each class and dispatched on the class of the receiver.\<close>

definition Ok_toJSON :: "res \<Rightarrow> obj" where
  "Ok_toJSON this = [(''kind'', Str ''ok''), (''value'', Res_value this)]"

definition Err_toJSON :: "res \<Rightarrow> obj" where
  "Err_toJSON this = [(''kind'', Str ''err''), (''error'', Res_error this)]"

definition toJSON :: "res \<Rightarrow> obj" where
  "toJSON this = (case cls this of Ok_class \<Rightarrow> Ok_toJSON this | Err_class \<Rightarrow> Err_toJSON this)"

section \<open>Equivalent inputs and observably identical results\<close>

text \<open>
  A tagged value and a facade instance are equivalent when they are of the same variant
  and hold the same payload.
\<close>

definition same_result :: "obj \<Rightarrow> res \<Rightarrow> bool" where
  "same_result r c =
     ((isOk r \<and> Res_isOk c \<and> get_prop r ''inner'' = Res_value c) \<or>
      (isErr r \<and> Res_isErr c \<and> get_prop r ''inner'' = Res_error c))"

text \<open>
  Two outcomes are observably identical when they leave the same state behind and either
  both throw the same value or both return values that are related by \<open>R\<close>.
\<close>

definition same_outcome ::
  "('a \<Rightarrow> 'b \<Rightarrow> bool) \<Rightarrow> (thrown + 'a) \<times> 's \<Rightarrow> (thrown + 'b) \<times> 's \<Rightarrow> bool" where
  "same_outcome R x y =
     (snd x = snd y \<and>
      (case fst x of
         Inl e \<Rightarrow> (case fst y of Inl e' \<Rightarrow> e = e' | Inr _ \<Rightarrow> False)
       | Inr a \<Rightarrow> (case fst y of Inl _ \<Rightarrow> False | Inr b \<Rightarrow> R a b)))"

section \<open>The names the two modules offer\<close>

text \<open>The functions that \<open>methods.ts\<close> exports, in the order of the file.\<close>

definition methods_exports :: "string list" where
  "methods_exports =
     [''match'', ''isOk'', ''isOkAnd'', ''isErr'', ''isErrAnd'', ''resultOk'', ''resultErr'',
      ''map'', ''mapOr'', ''mapOrElse'', ''mapErr'', ''inspect'', ''inspectErr'', ''expect'',
      ''unwrap'', ''unwrapOr'', ''unwrapOrElse'', ''expectErr'', ''unwrapErr'', ''and'',
      ''andThen'', ''or'', ''orElse'']"

text \<open>
  The instance methods of \<open>Res\<close>, in the order of \<open>result-class.ts\<close>: the two abstract
  ones, the methods of the abstract class, and \<open>toString\<close> and \<open>toJSON\<close> of the two
  concrete classes, which add no other method. The methods \<open>ok\<close> and \<open>err\<close> are the
  method forms of \<open>resultOk\<close> and \<open>resultErr\<close>.
\<close>

definition Res_instance_methods :: "string list" where
  "Res_instance_methods =
     [''isOk'', ''isErr'', ''isOkAnd'', ''isErrAnd'', ''ok'', ''err'', ''map'', ''mapOr'',
      ''mapOrElse'', ''mapErr'', ''inspect'', ''inspectErr'', ''expect'', ''unwrap'',
      ''unwrapOr'', ''unwrapOrElse'', ''expectErr'', ''unwrapErr'', ''and'', ''andThen'',
      ''or'', ''orElse'', ''toString'', ''toJSON'']"

text \<open>
  Whether a method of the given name can be called on an instance: both concrete classes
  inherit every method of \<open>Res\<close>, and the constructors assign no function to a property.
\<close>

definition Res_has_method :: "res \<Rightarrow> string \<Rightarrow> bool" where
  "Res_has_method this name =
     (case cls this of
        Ok_class \<Rightarrow> name \<in> set Res_instance_methods
      | Err_class \<Rightarrow> name \<in> set Res_instance_methods)"

section \<open>Unfolding rules\<close>

lemmas result_defs = get_prop_def ok_def err_def isOk_def isErr_def

lemmas facade_defs = Res_value_def Res_error_def Res_isOk_def Res_isErr_def
  new_Ok_def new_Err_def Res_ok_def Res_err_def Res_from_def

section \<open>The shape of the tagged value\<close>

text \<open>
  Claim C2, as stated: \<open>success(v)\<close> is the plain value \<open>{tag: "ok", inner: v}\<close> and
  \<open>failure(e)\<close> is \<open>{tag: "err", inner: e}\<close>, the discriminant being the field \<open>tag\<close>.
  It fails on the code: the object that \<open>ok(1)\<close> returns is not
  \<open>{tag: "ok", inner: 1}\<close>, the object that \<open>err(1)\<close> returns is not
  \<open>{tag: "err", inner: 1}\<close>, and reading \<open>tag\<close> from either gives \<open>undefined\<close>.
\<close>

theorem ok_err_shape_tag_counterexample:
  "ok (Num 1) \<noteq> [(''tag'', Str ''ok''), (''inner'', Num 1)]
   \<and> err (Num 1) \<noteq> [(''tag'', Str ''err''), (''inner'', Num 1)]
   \<and> get_prop (ok (Num 1)) ''tag'' = Undefined
   \<and> get_prop (err (Num 1)) ''tag'' = Undefined"
  by (simp add: ok_def err_def get_prop_def)

text \<open>
  Claim C2, amended: for every value \<open>v\<close>, \<open>ok(v)\<close> is the plain object
  \<open>{kind: "ok", inner: v}\<close>, and for every error \<open>e\<close>, \<open>err(e)\<close> is
  \<open>{kind: "err", inner: e}\<close>: the own properties are \<open>kind\<close> and \<open>inner\<close>, in this
  order; the discriminant is read from \<open>kind\<close> and the payload from \<open>inner\<close>.
\<close>

theorem ok_err_shape_kind_inner:
  "ok v = [(''kind'', Str ''ok''), (''inner'', v)]
   \<and> err e = [(''kind'', Str ''err''), (''inner'', e)]
   \<and> keys (ok v) = [''kind'', ''inner'']
   \<and> keys (err e) = [''kind'', ''inner'']
   \<and> get_prop (ok v) ''kind'' = Str ''ok''
   \<and> get_prop (ok v) ''inner'' = v
   \<and> get_prop (err e) ''kind'' = Str ''err''
   \<and> get_prop (err e) ''inner'' = e"
  by (simp add: ok_def err_def get_prop_def keys_def)

section \<open>The conversion bridge\<close>

text \<open>
  Claim C3: for every value \<open>x\<close>, \<open>Res.from(ok(x))\<close> behaves as \<open>Res.ok(x)\<close> does:
  the same answers of \<open>isOk\<close> and \<open>isErr\<close> and the same \<open>value\<close>, which is \<open>x\<close>
  (the two instances are of the same class with the same properties); and for every
  error \<open>e\<close>, \<open>Res.from(err(e))\<close> behaves as \<open>Res.err(e)\<close> does, with the same
  \<open>error\<close>, which is \<open>e\<close>.
\<close>

theorem from_agrees_with_factories:
  "Res_from (ok x) = Res_ok x
   \<and> Res_isOk (Res_from (ok x)) = Res_isOk (Res_ok x)
   \<and> Res_isErr (Res_from (ok x)) = Res_isErr (Res_ok x)
   \<and> Res_value (Res_from (ok x)) = Res_value (Res_ok x)
   \<and> Res_value (Res_ok x) = x
   \<and> Res_from (err e) = Res_err e
   \<and> Res_isOk (Res_from (err e)) = Res_isOk (Res_err e)
   \<and> Res_isErr (Res_from (err e)) = Res_isErr (Res_err e)
   \<and> Res_error (Res_from (err e)) = Res_error (Res_err e)
   \<and> Res_error (Res_err e) = e"
  by (simp add: result_defs facade_defs)

section \<open>\<open>unwrap\<close>\<close>

text \<open>
  Claim C4: \<open>unwrap\<close> returns the payload \<open>v\<close> of a success; on a failure, whatever
  its error payload \<open>e\<close>, it throws an \<open>Error\<close> whose message is exactly
  \<open>Called unwrap on an Err value\<close>. This holds for the function \<open>unwrap\<close> and for the
  method \<open>Res.unwrap\<close>, on instances made by the factories and by the bridge.
\<close>

theorem unwrap_returns_or_throws_fixed_message:
  "unwrap (ok v) = Inr v
   \<and> unwrap (err e) = Inl (Error ''Called unwrap on an Err value'')
   \<and> Res_unwrap (Res_ok v) = Inr v
   \<and> Res_unwrap (Res_err e) = Inl (Error ''Called unwrap on an Err value'')
   \<and> Res_unwrap (Res_from (ok v)) = Inr v
   \<and> Res_unwrap (Res_from (err e)) = Inl (Error ''Called unwrap on an Err value'')"
  by (simp add: result_defs facade_defs unwrap_def Res_unwrap_def)

section \<open>\<open>map\<close>\<close>

text \<open>
  Claim C5: the identity law of \<open>map\<close>. The identity callback returns its argument and
  touches nothing (\<open>js_return\<close>). For every success \<open>ok(v)\<close> and every failure
  \<open>err(e)\<close>, \<open>map\<close> with the identity returns a value equal to its argument; and for
  every object \<open>r\<close> at all, \<open>map\<close> with the identity returns an object with the tag
  of \<open>r\<close> and the payload of \<open>r\<close>, leaving the state as it was.
\<close>

theorem map_identity:
  "map_result (ok v) js_return s = (Inr (ok v), s)
   \<and> map_result (err e) js_return s = (Inr (err e), s)
   \<and> (\<exists>r'. map_result r js_return s = (Inr r', s)
         \<and> get_prop r' ''kind'' = get_prop r ''kind''
         \<and> get_prop r' ''inner'' = get_prop r ''inner'')"
  by (simp add: result_defs map_result_def js_return_def js_bind_def)

text \<open>
  Claim C6: the short-circuit law of \<open>map\<close> on a failure. For every error payload
  \<open>e\<close>, every callback \<open>f\<close> (whatever it would do to the state, return or throw) and
  every state \<open>s\<close>, \<open>map(err(e), f)\<close> returns \<open>err(e)\<close> and leaves \<open>s\<close> as it
  was, so \<open>f\<close> has not run; in particular the counter of a call-counting callback
  stays where it was. The method \<open>Res.map\<close> on \<open>Res.err(e)\<close> does the same and
  returns an \<open>Err\<close> instance holding \<open>e\<close>.
\<close>

theorem map_err_short_circuit:
  "map_result (err e) f s = (Inr (err e), s)
   \<and> map_result (err e) (counting g) n = (Inr (err e), n)
   \<and> Res_map (Res_err e) f s = (Inr (Res_err e), s)
   \<and> Res_map (Res_err e) (counting g) n = (Inr (Res_err e), n)"
  by (simp add: result_defs facade_defs map_result_def Res_map_def js_return_def)

section \<open>The two predicates\<close>

text \<open>
  Claim C7: exactly one of \<open>isOk\<close> and \<open>isErr\<close> is true of every value made by
  \<open>ok\<close> or \<open>err\<close>, and exactly one of the methods \<open>isOk\<close> and \<open>isErr\<close> is true of
  every instance made by \<open>Res.ok\<close>, \<open>Res.err\<close> or \<open>Res.from\<close> (the last from any
  object whatever).
\<close>

theorem exactly_one_of_isOk_isErr:
  "isOk (ok v) \<and> \<not> isErr (ok v)
   \<and> \<not> isOk (err e) \<and> isErr (err e)
   \<and> Res_isOk (Res_ok v) \<and> \<not> Res_isErr (Res_ok v)
   \<and> \<not> Res_isOk (Res_err e) \<and> Res_isErr (Res_err e)
   \<and> Res_isOk (Res_from (ok v)) \<and> \<not> Res_isErr (Res_from (ok v))
   \<and> \<not> Res_isOk (Res_from (err e)) \<and> Res_isErr (Res_from (err e))
   \<and> Res_isOk (Res_from r) \<noteq> Res_isErr (Res_from r)"
  by (simp add: result_defs facade_defs)

section \<open>The structured rendering and the accessors of the facade\<close>

text \<open>
  Claim C8: for every value \<open>v\<close>, \<open>toJSON\<close> of the \<open>Ok\<close> instance holding \<open>v\<close> is
  exactly \<open>{kind: "ok", value: v}\<close>, and for every error \<open>e\<close>, \<open>toJSON\<close> of the
  \<open>Err\<close> instance holding \<open>e\<close> is exactly \<open>{kind: "err", error: e}\<close>. The field
  names are \<open>value\<close> and \<open>error\<close>; the tagged value uses \<open>inner\<close> for both.
\<close>

theorem toJSON_shape:
  "toJSON (Res_ok v) = [(''kind'', Str ''ok''), (''value'', v)]
   \<and> toJSON (Res_err e) = [(''kind'', Str ''err''), (''error'', e)]
   \<and> keys (toJSON (Res_ok v)) = [''kind'', ''value'']
   \<and> keys (toJSON (Res_err e)) = [''kind'', ''error'']
   \<and> keys (ok v) = [''kind'', ''inner'']
   \<and> keys (err e) = [''kind'', ''inner'']"
  by (simp add: result_defs facade_defs toJSON_def Ok_toJSON_def Err_toJSON_def keys_def)

text \<open>
  Claim C9: reading the accessor of the other variant does not throw. For every error
  \<open>e\<close>, \<open>value\<close> read from \<open>Res.err(e)\<close> is \<open>undefined\<close>, and for every value
  \<open>v\<close>, \<open>error\<close> read from \<open>Res.ok(v)\<close> is \<open>undefined\<close>: the property was never
  assigned.
\<close>

theorem mismatched_accessor_undefined:
  "Res_value (Res_err e) = Undefined
   \<and> Res_error (Res_ok v) = Undefined
   \<and> Res_value (Res_from (err e)) = Undefined
   \<and> Res_error (Res_from (ok v)) = Undefined"
  by (simp add: result_defs facade_defs)

section \<open>\<open>resultOk\<close> and an \<open>undefined\<close> payload\<close>

text \<open>
  Claim C10: \<open>resultOk(ok(undefined))\<close> is \<open>undefined\<close>, which is also what
  \<open>resultOk\<close> returns for every failure; so there is an \<open>r\<close> with
  \<open>resultOk(r) = undefined\<close> of which \<open>isOk\<close> is true and \<open>isErr\<close> is false.
\<close>

theorem resultOk_undefined_collision:
  "resultOk (ok Undefined) = Undefined
   \<and> resultOk (err e) = Undefined
   \<and> isOk (ok Undefined)
   \<and> \<not> isErr (ok Undefined)
   \<and> (\<exists>r. resultOk r = Undefined \<and> isOk r \<and> \<not> isErr r)"
  by (auto simp add: result_defs resultOk_def
      intro: exI[of _ "[(''kind'', Str ''ok''), (''inner'', Undefined)]"])

section \<open>The functional form and the method form agree\<close>

text \<open>
  What equivalence of a tagged value and a facade instance gives: the tag of the one
  and the class of the other name the same variant, and the payloads are equal.
\<close>

lemma same_result_cases:
  assumes "same_result r c"
  shows "(get_prop r ''kind'' = Str ''ok'' \<and> Res_isOk c \<and> \<not> Res_isErr c
            \<and> get_prop r ''inner'' = Res_value c) \<or>
         (get_prop r ''kind'' = Str ''err'' \<and> \<not> Res_isOk c \<and> Res_isErr c
            \<and> get_prop r ''inner'' = Res_error c)"
  using assms
  by (auto simp add: same_result_def isOk_def isErr_def Res_isOk_def Res_isErr_def
      split: res_class.splits)

lemma same_result_new_Ok: "same_result [(''kind'', Str ''ok''), (''inner'', u)] (new_Ok u)"
  by (simp add: same_result_def isOk_def get_prop_def Res_isOk_def new_Ok_def Res_value_def)

lemma same_result_new_Err: "same_result [(''kind'', Str ''err''), (''inner'', u)] (new_Err u)"
  by (simp add: same_result_def isErr_def get_prop_def Res_isErr_def new_Err_def Res_error_def)

lemma same_result_keep_Ok:
  "get_prop r ''kind'' = Str ''ok'' \<Longrightarrow> get_prop r ''inner'' = v \<Longrightarrow> same_result r (new_Ok v)"
  by (simp add: same_result_def isOk_def Res_isOk_def new_Ok_def Res_value_def get_prop_def)

lemma same_result_keep_Err:
  "get_prop r ''kind'' = Str ''err'' \<Longrightarrow> get_prop r ''inner'' = v \<Longrightarrow> same_result r (new_Err v)"
  by (simp add: same_result_def isErr_def Res_isErr_def new_Err_def Res_error_def get_prop_def)

lemma same_outcome_return: "R a b \<Longrightarrow> same_outcome R (js_return a s) (js_return b s)"
  by (simp add: same_outcome_def js_return_def)

lemma same_outcome_bind:
  assumes "\<And>u. R (k u) (k' u)"
  shows "same_outcome R (js_bind m (\<lambda>u. js_return (k u)) s) (js_bind m (\<lambda>u. js_return (k' u)) s)"
  using assms
  by (cases "m s") (auto simp add: same_outcome_def js_bind_def js_return_def split: sum.splits)

lemma pred_equiv:
  assumes "same_result r c"
  shows "isOk r = Res_isOk c" and "isErr r = Res_isErr c"
  using same_result_cases[OF assms] by (auto simp add: isOk_def isErr_def)

lemma isOkAnd_equiv: "same_result r c \<Longrightarrow> isOkAnd r p s = Res_isOkAnd c p s"
  by (drule same_result_cases) (auto simp add: isOkAnd_def Res_isOkAnd_def)

lemma isErrAnd_equiv: "same_result r c \<Longrightarrow> isErrAnd r p s = Res_isErrAnd c p s"
  by (drule same_result_cases) (auto simp add: isErrAnd_def Res_isErrAnd_def)

lemma resultOk_equiv: "same_result r c \<Longrightarrow> resultOk r = Res_ok_method c"
  by (drule same_result_cases) (auto simp add: resultOk_def Res_ok_method_def)

lemma resultErr_equiv: "same_result r c \<Longrightarrow> resultErr r = Res_err_method c"
  by (drule same_result_cases) (auto simp add: resultErr_def Res_err_method_def)

lemma map_equiv:
  "same_result r c \<Longrightarrow> same_outcome same_result (map_result r f s) (Res_map c f s)"
  by (drule same_result_cases)
    (auto simp add: map_result_def Res_map_def
      intro!: same_outcome_bind same_outcome_return same_result_new_Ok
      intro: same_result_keep_Err)

lemma mapOr_equiv: "same_result r c \<Longrightarrow> mapOr r d g s = Res_mapOr c d g s"
  by (drule same_result_cases) (auto simp add: mapOr_def Res_mapOr_def)

lemma mapOrElse_equiv: "same_result r c \<Longrightarrow> mapOrElse r fb g s = Res_mapOrElse c fb g s"
  by (drule same_result_cases) (auto simp add: mapOrElse_def Res_mapOrElse_def)

lemma mapErr_equiv:
  "same_result r c \<Longrightarrow> same_outcome same_result (mapErr r f s) (Res_mapErr c f s)"
  by (drule same_result_cases)
    (auto simp add: mapErr_def Res_mapErr_def
      intro!: same_outcome_bind same_outcome_return same_result_new_Err
      intro: same_result_keep_Ok)

lemma inspect_equiv:
  assumes "same_result r c"
  shows "same_outcome same_result (inspect r f s) (Res_inspect c f s)"
  using same_result_cases[OF assms] assms
  by (auto simp add: inspect_def Res_inspect_def
      intro!: same_outcome_bind same_outcome_return)

lemma inspectErr_equiv:
  assumes "same_result r c"
  shows "same_outcome same_result (inspectErr r f s) (Res_inspectErr c f s)"
  using same_result_cases[OF assms] assms
  by (auto simp add: inspectErr_def Res_inspectErr_def
      intro!: same_outcome_bind same_outcome_return)

lemma expect_equiv: "same_result r c \<Longrightarrow> expect r msg = Res_expect c msg"
  by (drule same_result_cases) (auto simp add: expect_def Res_expect_def)

lemma unwrap_equiv: "same_result r c \<Longrightarrow> unwrap r = Res_unwrap c"
  by (drule same_result_cases) (auto simp add: unwrap_def Res_unwrap_def)

lemma unwrapOr_equiv: "same_result r c \<Longrightarrow> unwrapOr r d = Res_unwrapOr c d"
  by (drule same_result_cases) (auto simp add: unwrapOr_def Res_unwrapOr_def)

lemma unwrapOrElse_equiv: "same_result r c \<Longrightarrow> unwrapOrElse r f s = Res_unwrapOrElse c f s"
  by (drule same_result_cases) (auto simp add: unwrapOrElse_def Res_unwrapOrElse_def)

lemma expectErr_equiv: "same_result r c \<Longrightarrow> expectErr r msg = Res_expectErr c msg"
  by (drule same_result_cases) (auto simp add: expectErr_def Res_expectErr_def)

lemma unwrapErr_equiv: "same_result r c \<Longrightarrow> unwrapErr r = Res_unwrapErr c"
  by (drule same_result_cases) (auto simp add: unwrapErr_def Res_unwrapErr_def)

lemma and_equiv:
  "same_result r c \<Longrightarrow> same_result r2 c2 \<Longrightarrow> same_result (and_result r r2) (Res_and c c2)"
  by (drule same_result_cases)
    (auto simp add: and_result_def Res_and_def intro: same_result_keep_Err)

lemma andThen_equiv:
  assumes "same_result r c" and "\<And>v t. same_outcome same_result (fr v t) (fc v t)"
  shows "same_outcome same_result (andThen r fr s) (Res_andThen c fc s)"
  using same_result_cases[OF assms(1)] assms(2)
  by (auto simp add: andThen_def Res_andThen_def
      intro!: same_outcome_return intro: same_result_keep_Err)

lemma or_equiv:
  "same_result r c \<Longrightarrow> same_result r2 c2 \<Longrightarrow> same_result (or_result r r2) (Res_or c c2)"
  by (drule same_result_cases)
    (auto simp add: or_result_def Res_or_def intro: same_result_keep_Ok)

lemma orElse_equiv:
  assumes "same_result r c" and "\<And>v t. same_outcome same_result (fr v t) (fc v t)"
  shows "same_outcome same_result (orElse r fr s) (Res_orElse c fc s)"
  using same_result_cases[OF assms(1)] assms(2)
  by (auto simp add: orElse_def Res_orElse_def
      intro!: same_outcome_return intro: same_result_keep_Ok)


text \<open>
  Claim C1, as stated: for every operation of the combinator set, the function applied to
  a tagged value and the corresponding method applied to an equivalent facade instance
  have observably identical results. It fails at the operation \<open>match\<close> on the
  equivalent inputs \<open>ok(5)\<close> and \<open>Res.ok(5)\<close>: \<open>methods.ts\<close> exports \<open>match\<close>,
  and \<open>match(ok(5), {ok: h, err: h})\<close> calls \<open>h\<close> once and returns \<open>5\<close> for the
  handler \<open>h\<close> that returns its argument; but no method \<open>match\<close> can be called on
  \<open>Res.ok(5)\<close> (nor on \<open>Res.err(5)\<close>), so there is no method form whose result
  could be the same.
\<close>

theorem match_has_no_method_form_counterexample:
  "same_result (ok (Num 5)) (Res_ok (Num 5))
   \<and> ''match'' \<in> set methods_exports
   \<and> match_result (ok (Num 5)) (counting id) (counting id) 0 = (Inr (Num 5), Suc 0)
   \<and> \<not> Res_has_method (Res_ok (Num 5)) ''match''
   \<and> \<not> Res_has_method (Res_from (ok (Num 5))) ''match''
   \<and> \<not> Res_has_method (Res_err (Num 5)) ''match''"
  by (simp add: same_result_def result_defs facade_defs methods_exports_def
      Res_instance_methods_def Res_has_method_def match_result_def counting_def)

text \<open>
  Claim C1, amended: take a tagged value \<open>r\<close> and a facade instance \<open>c\<close> of the same
  variant with the same payload; for the operations with a second operand, a second such
  pair; and for the operations whose callback returns a result, a callback \<open>fr\<close>
  returning tagged values and a callback \<open>fc\<close> returning facade instances that have
  observably identical outcomes on every argument in every state. Then for each of the
  22 operations that exist in both forms, the function of \<open>methods.ts\<close> applied to
  \<open>r\<close> and the method of \<open>Res\<close> applied to \<open>c\<close> have observably identical results:
  the same plain value or thrown error where the operation extracts a value, and
  otherwise the same state left behind and either the same thrown value or results of
  the same variant with the same payload. The 22 operations are \<open>isOk\<close>, \<open>isErr\<close>,
  \<open>isOkAnd\<close>, \<open>isErrAnd\<close>, \<open>resultOk\<close> (method \<open>ok\<close>), \<open>resultErr\<close> (method
  \<open>err\<close>), \<open>map\<close>, \<open>mapOr\<close>, \<open>mapOrElse\<close>, \<open>mapErr\<close>, \<open>inspect\<close>,
  \<open>inspectErr\<close>, \<open>expect\<close>, \<open>unwrap\<close>, \<open>unwrapOr\<close>, \<open>unwrapOrElse\<close>,
  \<open>expectErr\<close>, \<open>unwrapErr\<close>, \<open>and\<close>, \<open>andThen\<close>, \<open>or\<close> and \<open>orElse\<close>: every
  function of \<open>methods.ts\<close> except \<open>match\<close>, of which nothing is said.
\<close>

theorem functional_and_facade_agree:
  assumes "same_result r c"
    and "same_result other_r other_c"
    and "\<forall>v t. same_outcome same_result (fr v t) (fc v t)"
  shows "isOk r = Res_isOk c
     \<and> isErr r = Res_isErr c
     \<and> isOkAnd r p s = Res_isOkAnd c p s
     \<and> isErrAnd r p s = Res_isErrAnd c p s
     \<and> resultOk r = Res_ok_method c
     \<and> resultErr r = Res_err_method c
     \<and> same_outcome same_result (map_result r f s) (Res_map c f s)
     \<and> mapOr r d f s = Res_mapOr c d f s
     \<and> mapOrElse r g f s = Res_mapOrElse c g f s
     \<and> same_outcome same_result (mapErr r f s) (Res_mapErr c f s)
     \<and> same_outcome same_result (inspect r f s) (Res_inspect c f s)
     \<and> same_outcome same_result (inspectErr r f s) (Res_inspectErr c f s)
     \<and> expect r msg = Res_expect c msg
     \<and> unwrap r = Res_unwrap c
     \<and> unwrapOr r d = Res_unwrapOr c d
     \<and> unwrapOrElse r f s = Res_unwrapOrElse c f s
     \<and> expectErr r msg = Res_expectErr c msg
     \<and> unwrapErr r = Res_unwrapErr c
     \<and> same_result (and_result r other_r) (Res_and c other_c)
     \<and> same_outcome same_result (andThen r fr s) (Res_andThen c fc s)
     \<and> same_result (or_result r other_r) (Res_or c other_c)
     \<and> same_outcome same_result (orElse r fr s) (Res_orElse c fc s)"
  using assms
  by (intro conjI pred_equiv isOkAnd_equiv isErrAnd_equiv resultOk_equiv resultErr_equiv
      map_equiv mapOr_equiv mapOrElse_equiv mapErr_equiv inspect_equiv inspectErr_equiv
      expect_equiv unwrap_equiv unwrapOr_equiv unwrapOrElse_equiv expectErr_equiv
      unwrapErr_equiv and_equiv andThen_equiv or_equiv orElse_equiv) simp_all

theorem functional_and_facade_agree_witness:
  "same_result (ok (Num 5)) (Res_ok (Num 5))
   \<and> same_result (err (Str ''a'')) (Res_err (Str ''a''))
   \<and> (\<forall>v t. same_outcome same_result (counting ok v t) (counting Res_ok v t))
   \<and> isOk (ok (Num 5)) = Res_isOk (Res_ok (Num 5))
   \<and> isErr (ok (Num 5)) = Res_isErr (Res_ok (Num 5))
   \<and> isOkAnd (ok (Num 5)) (counting (\<lambda>v. v = Num 5)) (0::nat) = Res_isOkAnd (Res_ok (Num 5)) (counting (\<lambda>v. v = Num 5)) (0::nat)
   \<and> isErrAnd (ok (Num 5)) (counting (\<lambda>v. v = Num 5)) (0::nat) = Res_isErrAnd (Res_ok (Num 5)) (counting (\<lambda>v. v = Num 5)) (0::nat)
   \<and> resultOk (ok (Num 5)) = Res_ok_method (Res_ok (Num 5))
   \<and> resultErr (ok (Num 5)) = Res_err_method (Res_ok (Num 5))
   \<and> same_outcome same_result (map_result (ok (Num 5)) (counting (\<lambda>v. Obj [(''seen'', v)])) (0::nat)) (Res_map (Res_ok (Num 5)) (counting (\<lambda>v. Obj [(''seen'', v)])) (0::nat))
   \<and> mapOr (ok (Num 5)) (Num 0) (counting (\<lambda>v. Obj [(''seen'', v)])) (0::nat) = Res_mapOr (Res_ok (Num 5)) (Num 0) (counting (\<lambda>v. Obj [(''seen'', v)])) (0::nat)
   \<and> mapOrElse (ok (Num 5)) (counting (\<lambda>v. Str ''fallback'')) (counting (\<lambda>v. Obj [(''seen'', v)])) (0::nat) = Res_mapOrElse (Res_ok (Num 5)) (counting (\<lambda>v. Str ''fallback'')) (counting (\<lambda>v. Obj [(''seen'', v)])) (0::nat)
   \<and> same_outcome same_result (mapErr (ok (Num 5)) (counting (\<lambda>v. Obj [(''seen'', v)])) (0::nat)) (Res_mapErr (Res_ok (Num 5)) (counting (\<lambda>v. Obj [(''seen'', v)])) (0::nat))
   \<and> same_outcome same_result (inspect (ok (Num 5)) (counting (\<lambda>v. Obj [(''seen'', v)])) (0::nat)) (Res_inspect (Res_ok (Num 5)) (counting (\<lambda>v. Obj [(''seen'', v)])) (0::nat))
   \<and> same_outcome same_result (inspectErr (ok (Num 5)) (counting (\<lambda>v. Obj [(''seen'', v)])) (0::nat)) (Res_inspectErr (Res_ok (Num 5)) (counting (\<lambda>v. Obj [(''seen'', v)])) (0::nat))
   \<and> expect (ok (Num 5)) ''boom'' = Res_expect (Res_ok (Num 5)) ''boom''
   \<and> unwrap (ok (Num 5)) = Res_unwrap (Res_ok (Num 5))
   \<and> unwrapOr (ok (Num 5)) (Num 0) = Res_unwrapOr (Res_ok (Num 5)) (Num 0)
   \<and> unwrapOrElse (ok (Num 5)) (counting (\<lambda>v. Obj [(''seen'', v)])) (0::nat) = Res_unwrapOrElse (Res_ok (Num 5)) (counting (\<lambda>v. Obj [(''seen'', v)])) (0::nat)
   \<and> expectErr (ok (Num 5)) ''boom'' = Res_expectErr (Res_ok (Num 5)) ''boom''
   \<and> unwrapErr (ok (Num 5)) = Res_unwrapErr (Res_ok (Num 5))
   \<and> same_result (and_result (ok (Num 5)) (err (Str ''a''))) (Res_and (Res_ok (Num 5)) (Res_err (Str ''a'')))
   \<and> same_outcome same_result (andThen (ok (Num 5)) (counting ok) (0::nat)) (Res_andThen (Res_ok (Num 5)) (counting Res_ok) (0::nat))
   \<and> same_result (or_result (ok (Num 5)) (err (Str ''a''))) (Res_or (Res_ok (Num 5)) (Res_err (Str ''a'')))
   \<and> same_outcome same_result (orElse (ok (Num 5)) (counting ok) (0::nat)) (Res_orElse (Res_ok (Num 5)) (counting Res_ok) (0::nat))"
proof -
  have h1: "same_result (ok (Num 5)) (Res_ok (Num 5))"
    by (simp add: same_result_def result_defs facade_defs)
  have h2: "same_result (err (Str ''a'')) (Res_err (Str ''a''))"
    by (simp add: same_result_def result_defs facade_defs)
  have h3: "\<forall>v t. same_outcome same_result (counting ok v t) (counting Res_ok v t)"
    by (simp add: same_outcome_def counting_def same_result_def result_defs facade_defs)
  show ?thesis
    using h1 h2 h3
      functional_and_facade_agree [OF h1 h2 h3, where p = "counting (\<lambda>v. v = Num 5)" and s = "0::nat" and f = "counting (\<lambda>v. Obj [(''seen'', v)])"
        and g = "counting (\<lambda>v. Str ''fallback'')" and d = "Num 0" and msg = "''boom''"]
    by simp
qed

end
